theory Spec2Isabelle
  imports Complex_Main
begin

section \<open>Values and strings of the host language\<close>

text \<open>
  The services check their arguments at run time (\<^verbatim>\<open>typeof\<close>, \<^verbatim>\<open>Array.isArray\<close>,
  \<^verbatim>\<open>Number.isInteger\<close>, truthiness), so an argument that the code inspects this way is a
  dynamically typed value. Finite numbers are rationals; \<open>JObject\<close> stands for any
  object that is neither an array nor a string (a plain object, a Map, a function).
\<close>

datatype jsval =
    JUndefined
  | JNull
  | JBool bool
  | JNum rat
  | JNaN
  | JInfinity bool
  | JStr string
  | JArr "jsval list"
  | JObject

text \<open>Truthiness, as \<^verbatim>\<open>!x\<close> and \<^verbatim>\<open>if (x)\<close> read it.\<close>

fun truthy :: "jsval \<Rightarrow> bool" where
  "truthy JUndefined = False"
| "truthy JNull = False"
| "truthy (JBool b) = b"
| "truthy (JNum r) = (r \<noteq> 0)"
| "truthy JNaN = False"
| "truthy (JInfinity s) = True"
| "truthy (JStr s) = (s \<noteq> [])"
| "truthy (JArr vs) = True"
| "truthy JObject = True"

fun isString :: "jsval \<Rightarrow> bool" where
  "isString (JStr s) = True"
| "isString v = False"

fun isNumber :: "jsval \<Rightarrow> bool" where
  "isNumber (JNum r) = True"
| "isNumber JNaN = True"
| "isNumber (JInfinity s) = True"
| "isNumber v = False"

text \<open>\<^verbatim>\<open>Number.isInteger\<close>: a finite number without a fractional part.\<close>

fun isInteger :: "jsval \<Rightarrow> bool" where
  "isInteger (JNum r) = (rat_of_int \<lfloor>r\<rfloor> = r)"
| "isInteger v = False"

text \<open>
  Strings are lists of code units below 256 (the Latin-1 range). \<^verbatim>\<open>String.prototype.trim\<close>
  strips white space and line terminators from both ends; in this range these are TAB,
  LF, VT, FF, CR, SPACE and the no-break space.
\<close>

definition isWhiteSpace :: "char \<Rightarrow> bool" where
  "isWhiteSpace c = ((of_char c :: nat) \<in> {9, 10, 11, 12, 13, 32, 160})"

definition trim :: "string \<Rightarrow> string" where
  "trim s = rev (dropWhile isWhiteSpace (rev (dropWhile isWhiteSpace s)))"

text \<open>
  \<^verbatim>\<open>toLowerCase\<close>: in this range the upper-case letters are A to Z and the accented
  capitals from 192 to 222 other than the multiplication sign 215; each has its
  lower-case form 32 places above.
\<close>

definition isUpperCase :: "char \<Rightarrow> bool" where
  "isUpperCase c =
     (let n = (of_char c :: nat)
      in (65 \<le> n \<and> n \<le> 90) \<or> (192 \<le> n \<and> n \<le> 222 \<and> n \<noteq> 215))"

definition toLowerChar :: "char \<Rightarrow> char" where
  "toLowerChar c = (if isUpperCase c then char_of ((of_char c :: nat) + 32) else c)"

definition toLowerCase :: "string \<Rightarrow> string" where
  "toLowerCase s = map toLowerChar s"

section \<open>Errors\<close>

text \<open>
  One constructor for each \<^verbatim>\<open>throw\<close> of the source, carrying the values its message
  interpolates. \<open>IOError\<close> is a read failure other than a missing file; \<open>TypeError\<close> is
  the run-time error of calling a method that a value does not have.
\<close>

datatype error =
    IOError
  | TypeError
  | UserAlreadyExists string
  | PollNotFoundForUpdate string
  | UsernameEmpty
  | UsernameTaken string
  | QuestionEmpty
  | TooFewOptions
  | OptionsNotNonEmptyStrings
  | OptionsNotUnique
  | CreatorRequired
  | CreatorDoesNotExist string
  | DeletionArgsRequired
  | VoteArgsRequired
  | PollNotFound string
  | UserNotFound string
  | NotAuthorized string string
  | InvalidOptionIndex jsval string
  | AlreadyVoted string string
  | OptionsNotStrings
  | OptionsEmpty

section \<open>Objects as dictionaries\<close>

text \<open>
  The store keeps its users and its polls in plain objects and reads them with
  \<^verbatim>\<open>obj[key]\<close>. Such a read finds the object's own property first and falls back on what
  every object inherits from \<^verbatim>\<open>Object.prototype\<close>: eleven functions and the accessor
  \<^verbatim>\<open>__proto__\<close>, which answers with the prototype itself. Whatever is inherited is
  truthy and has none of the properties that the code reads of a user or a poll.
\<close>

definition objectPrototypeNames :: "string list" where
  "objectPrototypeNames =
     [''constructor'', ''__defineGetter__'', ''__defineSetter__'', ''hasOwnProperty'',
      ''__lookupGetter__'', ''__lookupSetter__'', ''isPrototypeOf'', ''propertyIsEnumerable'',
      ''toString'', ''valueOf'', ''__proto__'', ''toLocaleString'']"

datatype 'a lookup = NoProperty | Inherited | Own 'a

definition propertyOf :: "(string \<rightharpoonup> 'a) \<Rightarrow> string \<Rightarrow> 'a lookup" where
  "propertyOf own key =
     (case own key of
        Some x \<Rightarrow> Own x
      | None \<Rightarrow> if key \<in> set objectPrototypeNames then Inherited else NoProperty)"

section \<open>The stored document (storage/memoryStorage.js)\<close>

type_synonym ledger = "string \<rightharpoonup> int"

text \<open>
  The \<^verbatim>\<open>votes\<close> property of a poll: a \<^verbatim>\<open>Map\<close> (the form the services use), a plain
  object (the form JSON holds), or nothing (missing, \<^verbatim>\<open>undefined\<close> or \<^verbatim>\<open>null\<close>).
\<close>

datatype votes_repr = NoLedger | FlatRecord ledger | MapLedger ledger

record user =
  username :: string

text \<open>
  The argument of the store's \<^verbatim>\<open>createPoll\<close>, with the properties that it declares, and
  a poll: an object with all of them and \<^verbatim>\<open>votes\<close>.
\<close>

record pollData =
  poll_id :: string
  question :: string
  options :: "string list"
  creator :: string

record poll = pollData +
  votes :: votes_repr

text \<open>
  What \<^verbatim>\<open>data.polls\<close> holds under a key is an object with some of these properties: all of
  them when \<^verbatim>\<open>createPoll\<close> made it, only those of the patch when \<^verbatim>\<open>updatePoll\<close> built it
  from an inherited value, none when \<^verbatim>\<open>writeData\<close> made it from an inherited property.
  A property that the object does not have is \<open>None\<close>. Properties under other names
  (the index properties that the spread of a string or of an array gives) are left
  out: the store and the services copy them along and never look at them.
\<close>

record pollObject =
  obj_id :: "string option"
  obj_question :: "string option"
  obj_options :: "string list option"
  obj_creator :: "string option"
  obj_votes :: votes_repr

definition asObject :: "poll \<Rightarrow> pollObject" where
  "asObject p =
     \<lparr>obj_id = Some (poll_id p), obj_question = Some (question p),
      obj_options = Some (options p), obj_creator = Some (creator p), obj_votes = votes p\<rparr>"

definition asPoll :: "pollObject \<Rightarrow> poll option" where
  "asPoll x =
     (case (obj_id x, obj_question x, obj_options x, obj_creator x) of
        (Some i, Some q, Some os, Some c) \<Rightarrow>
          Some \<lparr>poll_id = i, question = q, options = os, creator = c, votes = obj_votes x\<rparr>
      | _ \<Rightarrow> None)"

text \<open>
  A document: the own properties of \<^verbatim>\<open>data.users\<close> and of \<^verbatim>\<open>data.polls\<close>. Neither has an
  own property \<^verbatim>\<open>__proto__\<close>: an assignment to that key sets the prototype instead, and
  \<^verbatim>\<open>writeData\<close> writes no such key, so no operation of the store produces one.
\<close>

record contents =
  usersObject :: "string \<rightharpoonup> user"
  pollsObject :: "string \<rightharpoonup> pollObject"

typedef document =
  "{c :: contents. usersObject c ''__proto__'' = None \<and> pollsObject c ''__proto__'' = None}"
  by (rule exI [where x = "\<lparr>usersObject = Map.empty, pollsObject = Map.empty\<rparr>"]) simp

setup_lifting type_definition_document

lift_definition users :: "document \<Rightarrow> string \<rightharpoonup> user"
  is usersObject .

lift_definition objects :: "document \<Rightarrow> string \<rightharpoonup> pollObject"
  is pollsObject .

text \<open>The polls of a document: the objects that have every property of a poll.\<close>

definition polls :: "document \<Rightarrow> string \<rightharpoonup> poll" where
  "polls d pid = (case objects d pid of None \<Rightarrow> None | Some x \<Rightarrow> asPoll x)"

lift_definition emptyDocument :: document
  is "\<lparr>usersObject = Map.empty, pollsObject = Map.empty\<rparr>"
  by simp

text \<open>
  The effect on the own properties of \<^verbatim>\<open>data.users[key] = u\<close>, of \<^verbatim>\<open>data.polls[key] = x\<close> and
  of \<^verbatim>\<open>delete data.polls[key]\<close>: under the key \<^verbatim>\<open>__proto__\<close> an assignment adds none.
\<close>

lift_definition setUser :: "string \<Rightarrow> user \<Rightarrow> document \<Rightarrow> document"
  is "\<lambda>key u c. if key = ''__proto__'' then c else c\<lparr>usersObject := (usersObject c)(key \<mapsto> u)\<rparr>"
  by simp

lift_definition setObject :: "string \<Rightarrow> pollObject \<Rightarrow> document \<Rightarrow> document"
  is "\<lambda>key x c. if key = ''__proto__'' then c else c\<lparr>pollsObject := (pollsObject c)(key \<mapsto> x)\<rparr>"
  by simp

lift_definition deleteObject :: "string \<Rightarrow> document \<Rightarrow> document"
  is "\<lambda>key c. c\<lparr>pollsObject := (pollsObject c)(key := None)\<rparr>"
  by simp

lift_definition mapObjects :: "(pollObject \<Rightarrow> pollObject) \<Rightarrow> document \<Rightarrow> document"
  is "\<lambda>f c. c\<lparr>pollsObject := map_option f \<circ> pollsObject c\<rparr>"
  by simp

text \<open>
  The state of \<^verbatim>\<open>storage.json\<close>: no such file (\<^verbatim>\<open>ENOENT\<close>), a text that \<^verbatim>\<open>JSON.parse\<close>
  rejects (the empty text included, so that the later test for a blank text decides
  nothing), a file whose read fails for another reason, or a text that parses to a
  document of the shape that this module writes: an object with a \<^verbatim>\<open>users\<close> and a
  \<^verbatim>\<open>polls\<close> object. \<^verbatim>\<open>fs.writeFile\<close> is taken to succeed.
\<close>

datatype medium = Absent | Unparsable | Unreadable | Holding document

text \<open>The loop body of \<^verbatim>\<open>readData\<close>: a truthy \<^verbatim>\<open>votes\<close> that is not a Map becomes one.\<close>

definition votesToMap :: "pollObject \<Rightarrow> pollObject" where
  "votesToMap x =
     (case obj_votes x of
        FlatRecord l \<Rightarrow> x\<lparr>obj_votes := MapLedger l\<rparr>
      | NoLedger \<Rightarrow> x
      | MapLedger l \<Rightarrow> x)"

fun readData :: "medium \<Rightarrow> error + document" where
  "readData Absent = Inr emptyDocument"
| "readData Unparsable = Inr emptyDocument"
| "readData Unreadable = Inl IOError"
| "readData (Holding d) = Inr (mapObjects votesToMap d)"

text \<open>
  What \<^verbatim>\<open>data.polls[key] = x\<close> does to the data that an operation has read: under
  \<^verbatim>\<open>__proto__\<close> it makes \<open>x\<close> the prototype of \<^verbatim>\<open>data.polls\<close> and adds no property; under
  any other key it sets the own property. The second component is the prototype when
  the assignment has set one.
\<close>

definition assignObject ::
  "string \<Rightarrow> pollObject \<Rightarrow> document \<Rightarrow> document \<times> pollObject option" where
  "assignObject key x d =
     (if key = ''__proto__'' then (d, Some x) else (setObject key x d, None))"

text \<open>
  The loop body of \<^verbatim>\<open>writeData\<close> on an own property:
  \<^verbatim>\<open>votes: poll.votes instanceof Map ? Object.fromEntries(poll.votes) : poll.votes || {}\<close>.
\<close>

definition votesToRecord :: "pollObject \<Rightarrow> pollObject" where
  "votesToRecord x =
     x\<lparr>obj_votes := (case obj_votes x of
                        MapLedger l \<Rightarrow> FlatRecord l
                      | FlatRecord l \<Rightarrow> FlatRecord l
                      | NoLedger \<Rightarrow> FlatRecord Map.empty)\<rparr>"

text \<open>
  \<^verbatim>\<open>for (const pollId in data.polls)\<close> also visits the enumerable properties of a
  prototype that an assignment has set, under their names in the source: those that
  the object has, and \<^verbatim>\<open>votes\<close>, which \<^verbatim>\<open>createPoll\<close> and \<^verbatim>\<open>updatePoll\<close> always give it.
\<close>

definition enumerableNames :: "pollObject \<Rightarrow> string list" where
  "enumerableNames x =
     (if obj_id x = None then [] else [''id''])
     @ (if obj_question x = None then [] else [''question''])
     @ (if obj_options x = None then [] else [''options''])
     @ (if obj_creator x = None then [] else [''creator''])
     @ [''votes'']"

text \<open>
  What the loop body makes of such an inherited property, whose value \<^verbatim>\<open>poll\<close> is a
  string, an array or a Map: \<^verbatim>\<open>{ ...poll, votes: poll.votes || {} }\<close> has the characters or
  the elements under their indices, none of a poll's properties, and the empty ledger,
  since \<^verbatim>\<open>poll.votes\<close> is \<^verbatim>\<open>undefined\<close> on each of these values.
\<close>

definition strayObject :: pollObject where
  "strayObject =
     \<lparr>obj_id = None, obj_question = None, obj_options = None, obj_creator = None,
      obj_votes = FlatRecord Map.empty\<rparr>"

definition writeInherited :: "document \<Rightarrow> string \<Rightarrow> document \<Rightarrow> document" where
  "writeInherited d key written =
     (if objects d key = None then setObject key strayObject written else written)"

text \<open>
  \<^verbatim>\<open>writeData\<close>, given the own properties and the prototype that an assignment may have
  set. The users are written as they are; every own member of \<^verbatim>\<open>data.polls\<close> is written
  with its ledger as a plain object; every inherited property that no own property
  hides is written as a member too. The prototype is an object that \<^verbatim>\<open>createPoll\<close> or
  \<^verbatim>\<open>updatePoll\<close> has built, so its \<^verbatim>\<open>votes\<close> is a Map or \<^verbatim>\<open>undefined\<close>. When it is
  \<^verbatim>\<open>undefined\<close> and not hidden, the loop body reads \<^verbatim>\<open>poll.votes\<close> of \<^verbatim>\<open>undefined\<close>: the
  TypeError is thrown again and nothing is written.
\<close>

definition writeData :: "document \<Rightarrow> pollObject option \<Rightarrow> error + medium" where
  "writeData d prototype =
     (case prototype of
        None \<Rightarrow> Inr (Holding (mapObjects votesToRecord d))
      | Some x \<Rightarrow>
          if objects d ''votes'' = None \<and> obj_votes x = NoLedger then Inl TypeError
          else Inr (Holding (foldr (writeInherited d) (enumerableNames x)
                               (mapObjects votesToRecord d))))"

definition findUserByUsername :: "medium \<Rightarrow> string \<Rightarrow> error + user lookup" where
  "findUserByUsername m name =
     (case readData m of Inl e \<Rightarrow> Inl e | Inr d \<Rightarrow> Inr (propertyOf (users d) name))"

definition storage_createUser :: "medium \<Rightarrow> string \<Rightarrow> (error + user) \<times> medium" where
  "storage_createUser m name =
     (case readData m of
        Inl e \<Rightarrow> (Inl e, m)
      | Inr d \<Rightarrow>
          if propertyOf (users d) name \<noteq> NoProperty then (Inl (UserAlreadyExists name), m)
          else
            let u = \<lparr>username = name\<rparr> in
            (case writeData (setUser name u d) None of
               Inl e \<Rightarrow> (Inl e, m)
             | Inr m' \<Rightarrow> (Inr u, m')))"

definition findPollById :: "medium \<Rightarrow> string \<Rightarrow> error + pollObject lookup" where
  "findPollById m pid =
     (case readData m of Inl e \<Rightarrow> Inl e | Inr d \<Rightarrow> Inr (propertyOf (objects d) pid))"

text \<open>
  \<^verbatim>\<open>createPoll\<close>: \<^verbatim>\<open>{ ...pollData, votes: new Map() }\<close>, assigned to \<^verbatim>\<open>data.polls\<close> under
  its own id, written and returned.
\<close>

definition storage_createPoll :: "medium \<Rightarrow> pollData \<Rightarrow> (error + poll) \<times> medium" where
  "storage_createPoll m pd =
     (case readData m of
        Inl e \<Rightarrow> (Inl e, m)
      | Inr d \<Rightarrow>
          let p = \<lparr>poll_id = poll_id pd, question = question pd, options = options pd,
                   creator = creator pd, votes = MapLedger Map.empty\<rparr>
          in (case assignObject (poll_id p) (asObject p) d of
                (d', prototype) \<Rightarrow>
                  (case writeData d' prototype of
                     Inl e \<Rightarrow> (Inl e, m)
                   | Inr m' \<Rightarrow> (Inr p, m'))))"

text \<open>
  The second argument of \<^verbatim>\<open>updatePoll\<close>: an object naming some of a poll's properties.
  A property that the object does not have is \<open>None\<close>.
\<close>

record pollPatch =
  patch_id :: "string option"
  patch_question :: "string option"
  patch_options :: "string list option"
  patch_creator :: "string option"
  patch_votes :: "votes_repr option"

text \<open>
  The properties that the code reads of the value it has found: those of an own
  member; none of an inherited value, whose spread is empty as well.
\<close>

definition noProperties :: pollObject where
  "noProperties =
     \<lparr>obj_id = None, obj_question = None, obj_options = None, obj_creator = None,
      obj_votes = NoLedger\<rparr>"

fun pollProperties :: "pollObject lookup \<Rightarrow> pollObject" where
  "pollProperties (Own x) = x"
| "pollProperties Inherited = noProperties"
| "pollProperties NoProperty = noProperties"

text \<open>
  \<^verbatim>\<open>{ ...poll, ...updatedPollData, votes: updatedPollData.votes instanceof Map ?
  updatedPollData.votes : poll.votes }\<close>
\<close>

definition mergePoll :: "pollObject \<Rightarrow> pollPatch \<Rightarrow> pollObject" where
  "mergePoll x u =
     \<lparr>obj_id = (case patch_id u of Some v \<Rightarrow> Some v | None \<Rightarrow> obj_id x),
      obj_question = (case patch_question u of Some v \<Rightarrow> Some v | None \<Rightarrow> obj_question x),
      obj_options = (case patch_options u of Some v \<Rightarrow> Some v | None \<Rightarrow> obj_options x),
      obj_creator = (case patch_creator u of Some v \<Rightarrow> Some v | None \<Rightarrow> obj_creator x),
      obj_votes = (case patch_votes u of Some (MapLedger l) \<Rightarrow> MapLedger l | _ \<Rightarrow> obj_votes x)\<rparr>"

definition updatePoll ::
  "medium \<Rightarrow> string \<Rightarrow> pollPatch \<Rightarrow> (error + pollObject) \<times> medium" where
  "updatePoll m pid u =
     (case readData m of
        Inl e \<Rightarrow> (Inl e, m)
      | Inr d \<Rightarrow>
          (case propertyOf (objects d) pid of
             NoProperty \<Rightarrow> (Inl (PollNotFoundForUpdate pid), m)
           | found \<Rightarrow>
               let updated = mergePoll (pollProperties found) u in
               (case assignObject pid updated d of
                  (d', prototype) \<Rightarrow>
                    (case writeData d' prototype of
                       Inl e \<Rightarrow> (Inl e, m)
                     | Inr m' \<Rightarrow> (Inr updated, m')))))"

definition storage_deletePoll :: "medium \<Rightarrow> string \<Rightarrow> (error + bool) \<times> medium" where
  "storage_deletePoll m pid =
     (case readData m of
        Inl e \<Rightarrow> (Inl e, m)
      | Inr d \<Rightarrow>
          if propertyOf (objects d) pid \<noteq> NoProperty
          then (case writeData (deleteObject pid d) None of
                  Inl e \<Rightarrow> (Inl e, m)
                | Inr m' \<Rightarrow> (Inr True, m'))
          else (Inr False, m))"

section \<open>The Identity Registry (services/userService.js)\<close>

text \<open>
  \<^verbatim>\<open>x.trim()\<close> on a dynamically typed value raises a TypeError unless \<open>x\<close> is a string.
\<close>

fun jtrim :: "jsval \<Rightarrow> error + string" where
  "jtrim (JStr s) = Inr (trim s)"
| "jtrim v = Inl TypeError"

fun trimAll :: "jsval list \<Rightarrow> error + string list" where
  "trimAll [] = Inr []"
| "trimAll (v # vs) =
     (case jtrim v of
        Inl e \<Rightarrow> Inl e
      | Inr s \<Rightarrow> (case trimAll vs of Inl e \<Rightarrow> Inl e | Inr ss \<Rightarrow> Inr (s # ss)))"

text \<open>
  \<^verbatim>\<open>x.trim().length === 0\<close>, which the source evaluates only behind
  \<^verbatim>\<open>typeof x !== 'string' ||\<close>.
\<close>

fun emptyAfterTrim :: "jsval \<Rightarrow> bool" where
  "emptyAfterTrim (JStr s) = (length (trim s) = 0)"
| "emptyAfterTrim v = False"

text \<open>
  The guard that the services put on a name or a question:
  \<^verbatim>\<open>!x || typeof x !== 'string' || x.trim().length === 0\<close>; and the guard on one option:
  \<^verbatim>\<open>typeof opt !== 'string' || opt.trim().length === 0\<close>.
\<close>

definition missingOrBlank :: "jsval \<Rightarrow> bool" where
  "missingOrBlank v = (\<not> truthy v \<or> \<not> isString v \<or> emptyAfterTrim v)"

definition notNonEmptyString :: "jsval \<Rightarrow> bool" where
  "notNonEmptyString opt = (\<not> isString opt \<or> emptyAfterTrim opt)"

text \<open>
  \<^verbatim>\<open>createUser\<close>. \<^verbatim>\<open>if (existingUser)\<close> holds of a user that the store has and of an
  inherited value alike.
\<close>

definition userService_createUser :: "medium \<Rightarrow> jsval \<Rightarrow> (error + user) \<times> medium" where
  "userService_createUser m name =
     (if missingOrBlank name then (Inl UsernameEmpty, m)
      else
        (case jtrim name of
           Inl e \<Rightarrow> (Inl e, m)
         | Inr trimmedUsername \<Rightarrow>
             (case findUserByUsername m trimmedUsername of
                Inl e \<Rightarrow> (Inl e, m)
              | Inr NoProperty \<Rightarrow> storage_createUser m trimmedUsername
              | Inr existingUser \<Rightarrow> (Inl (UsernameTaken trimmedUsername), m))))"

definition findUser :: "medium \<Rightarrow> string \<Rightarrow> error + user lookup" where
  "findUser m name = findUserByUsername m name"

section \<open>The Poll Service (services/pollService.js)\<close>

definition validatePollData :: "jsval \<Rightarrow> jsval \<Rightarrow> jsval \<Rightarrow> error + unit" where
  "validatePollData q opts creatorUsername =
     (if missingOrBlank q then Inl QuestionEmpty
      else
        (case opts of
           JArr vs \<Rightarrow>
             if length vs < 2 then Inl TooFewOptions
             else if list_ex notNonEmptyString vs
             then Inl OptionsNotNonEmptyStrings
             else
               (case trimAll vs of
                  Inl e \<Rightarrow> Inl e
                | Inr trimmed \<Rightarrow>
                    if card (set trimmed) \<noteq> length vs then Inl OptionsNotUnique
                    else if missingOrBlank creatorUsername then Inl CreatorRequired
                    else Inr ())
         | _ \<Rightarrow> Inl TooFewOptions))"

text \<open>
  \<^verbatim>\<open>createPoll\<close>. The identifier that \<^verbatim>\<open>uuidv4()\<close> returns is the argument \<open>pollId\<close>.
\<close>

definition pollService_createPoll ::
  "medium \<Rightarrow> jsval \<Rightarrow> jsval \<Rightarrow> jsval \<Rightarrow> string \<Rightarrow> (error + poll) \<times> medium" where
  "pollService_createPoll m q opts creatorUsername pollId =
     (case validatePollData q opts creatorUsername of
        Inl e \<Rightarrow> (Inl e, m)
      | Inr ok \<Rightarrow>
          (case jtrim creatorUsername of
             Inl e \<Rightarrow> (Inl e, m)
           | Inr trimmedUsername \<Rightarrow>
               (case findUser m trimmedUsername of
                  Inl e \<Rightarrow> (Inl e, m)
                | Inr NoProperty \<Rightarrow> (Inl (CreatorDoesNotExist trimmedUsername), m)
                | Inr creatorUser \<Rightarrow>
                    (case jtrim q of
                       Inl e \<Rightarrow> (Inl e, m)
                     | Inr trimmedQuestion \<Rightarrow>
                         (case opts of
                            JArr vs \<Rightarrow>
                              (case trimAll vs of
                                 Inl e \<Rightarrow> (Inl e, m)
                               | Inr trimmedOptions \<Rightarrow>
                                   storage_createPoll m
                                     \<lparr>poll_id = pollId, question = trimmedQuestion,
                                      options = trimmedOptions, creator = trimmedUsername\<rparr>)
                          | _ \<Rightarrow> (Inl TypeError, m))))))"

text \<open>
  \<^verbatim>\<open>deletePoll\<close> and \<^verbatim>\<open>vote\<close>. The poll id and the username are strings, as declared, so
  that \<^verbatim>\<open>!pollId\<close> and \<^verbatim>\<open>!username\<close> hold of the empty string only; the option index is
  whatever value the caller passes. \<^verbatim>\<open>if (!poll)\<close> and \<^verbatim>\<open>if (!user)\<close> hold only when the
  store has found nothing, not even an inherited value.
\<close>

definition pollService_deletePoll ::
  "medium \<Rightarrow> string \<Rightarrow> string \<Rightarrow> (error + bool) \<times> medium" where
  "pollService_deletePoll m pollId requestingUsername =
     (if pollId = [] \<or> requestingUsername = [] then (Inl DeletionArgsRequired, m)
      else
        (case findPollById m pollId of
           Inl e \<Rightarrow> (Inl e, m)
         | Inr NoProperty \<Rightarrow> (Inl (PollNotFound pollId), m)
         | Inr found \<Rightarrow>
             if obj_creator (pollProperties found) \<noteq> Some (trim requestingUsername)
             then (Inl (NotAuthorized requestingUsername pollId), m)
             else storage_deletePoll m pollId))"

text \<open>
  The comparisons \<^verbatim>\<open>optionIndex < 0\<close> and \<^verbatim>\<open>optionIndex >= poll.options.length\<close>, which the
  source evaluates only on numbers.
\<close>

fun numLess :: "jsval \<Rightarrow> rat \<Rightarrow> bool" where
  "numLess (JNum r) x = (r < x)"
| "numLess (JInfinity positive) x = (\<not> positive)"
| "numLess v x = False"

fun numAtLeast :: "jsval \<Rightarrow> rat \<Rightarrow> bool" where
  "numAtLeast (JNum r) x = (x \<le> r)"
| "numAtLeast (JInfinity positive) x = positive"
| "numAtLeast v x = False"

text \<open>
  The index test of \<^verbatim>\<open>vote\<close>, a chain of \<^verbatim>\<open>||\<close>. Its last operand reads
  \<^verbatim>\<open>poll.options.length\<close>, a TypeError when the value found has no \<^verbatim>\<open>options\<close>; the
  operand is reached only by a non-negative integer.
\<close>

definition invalidOptionIndex :: "jsval \<Rightarrow> pollObject \<Rightarrow> error + bool" where
  "invalidOptionIndex optionIndex x =
     (if \<not> isNumber optionIndex \<or> \<not> isInteger optionIndex \<or> numLess optionIndex 0
      then Inr True
      else
        (case obj_options x of
           None \<Rightarrow> Inl TypeError
         | Some os \<Rightarrow> Inr (numAtLeast optionIndex (of_nat (length os)))))"

text \<open>
  The ledger keeps the number that passed the check above; on such a number \<open>toIndex\<close>
  is the number itself.
\<close>

fun toIndex :: "jsval \<Rightarrow> int" where
  "toIndex (JNum r) = \<lfloor>r\<rfloor>"
| "toIndex v = 0"

definition votesOnly :: "votes_repr \<Rightarrow> pollPatch" where
  "votesOnly v = \<lparr>patch_id = None, patch_question = None, patch_options = None,
                  patch_creator = None, patch_votes = Some v\<rparr>"

definition vote ::
  "medium \<Rightarrow> string \<Rightarrow> jsval \<Rightarrow> string \<Rightarrow> (error + pollObject) \<times> medium" where
  "vote m pollId optionIndex name =
     (if pollId = [] \<or> optionIndex = JUndefined \<or> name = [] then (Inl VoteArgsRequired, m)
      else
        let trimmedUsername = trim name in
        (case findPollById m pollId of
           Inl e \<Rightarrow> (Inl e, m)
         | Inr NoProperty \<Rightarrow> (Inl (PollNotFound pollId), m)
         | Inr found \<Rightarrow>
             (case findUser m trimmedUsername of
                Inl e \<Rightarrow> (Inl e, m)
              | Inr NoProperty \<Rightarrow> (Inl (UserNotFound trimmedUsername), m)
              | Inr u \<Rightarrow>
                  (case invalidOptionIndex optionIndex (pollProperties found) of
                     Inl e \<Rightarrow> (Inl e, m)
                   | Inr True \<Rightarrow> (Inl (InvalidOptionIndex optionIndex pollId), m)
                   | Inr False \<Rightarrow>
                       (case obj_votes (pollProperties found) of
                          MapLedger l \<Rightarrow>
                            if l trimmedUsername \<noteq> None
                            then (Inl (AlreadyVoted trimmedUsername pollId), m)
                            else updatePoll m pollId
                                   (votesOnly
                                      (MapLedger (l(trimmedUsername \<mapsto> toIndex optionIndex))))
                        | _ \<Rightarrow> (Inl TypeError, m))))))"

section \<open>The Poll Aggregate (poll.js, in its two versions)\<close>

text \<open>
  The constructor declares its question a string; the code also accepts a missing one
  (\<^verbatim>\<open>null\<close> or \<^verbatim>\<open>undefined\<close>), which is \<open>None\<close> here. \<^verbatim>\<open>question?.trim()\<close> is
  \<^verbatim>\<open>undefined\<close> on a missing question.
\<close>

fun optTrim :: "string option \<Rightarrow> jsval" where
  "optTrim None = JUndefined"
| "optTrim (Some s) = JStr (trim s)"

text \<open>
  \<^verbatim>\<open>#validateInputs\<close>. The two versions differ in how they normalise an option before
  comparing: \<^verbatim>\<open>opt.trim()\<close> in one, \<^verbatim>\<open>opt.trim().toLowerCase()\<close> in the other; \<open>caseFold\<close>
  is what is applied after the trim. The options are whatever value the caller passes.
\<close>

definition validateInputsWith ::
  "(string \<Rightarrow> string) \<Rightarrow> string option \<Rightarrow> jsval \<Rightarrow> error + unit" where
  "validateInputsWith caseFold q opts =
     (if \<not> truthy (optTrim q) then Inl QuestionEmpty
      else
        (case opts of
           JArr vs \<Rightarrow>
             if length vs < 2 then Inl TooFewOptions
             else if \<not> list_all isString vs then Inl OptionsNotStrings
             else
               (case trimAll vs of
                  Inl e \<Rightarrow> Inl e
                | Inr ts \<Rightarrow>
                    let trimmed = map caseFold ts in
                    if card (set trimmed) \<noteq> length trimmed then Inl OptionsNotUnique
                    else if list_ex (\<lambda>opt. opt = []) trimmed then Inl OptionsEmpty
                    else Inr ())
         | _ \<Rightarrow> Inl TooFewOptions))"

definition validateInputs :: "string option \<Rightarrow> jsval \<Rightarrow> error + unit" where
  "validateInputs = validateInputsWith (\<lambda>s. s)"

definition validateInputs_ci :: "string option \<Rightarrow> jsval \<Rightarrow> error + unit" where
  "validateInputs_ci = validateInputsWith toLowerCase"

text \<open>
  The constructor: validation first, then the fields, with a zero counter for every
  option.
\<close>

record 'i pollAggregate =
  agg_id :: 'i
  agg_question :: string
  agg_options :: "string list"
  agg_votes :: "string \<rightharpoonup> nat"

definition newPollWith ::
  "(string \<Rightarrow> string) \<Rightarrow> 'i \<Rightarrow> string option \<Rightarrow> jsval \<Rightarrow> error + 'i pollAggregate" where
  "newPollWith caseFold i q opts =
     (case validateInputsWith caseFold q opts of
        Inl e \<Rightarrow> Inl e
      | Inr ok \<Rightarrow>
          (case q of
             None \<Rightarrow> Inl TypeError
           | Some s \<Rightarrow>
               (case opts of
                  JArr vs \<Rightarrow>
                    (case trimAll vs of
                       Inl e \<Rightarrow> Inl e
                     | Inr ts \<Rightarrow>
                         Inr \<lparr>agg_id = i, agg_question = caseFold (trim s),
                              agg_options = map caseFold ts,
                              agg_votes = map_of (map (\<lambda>opt. (opt, 0)) (map caseFold ts))\<rparr>)
                | _ \<Rightarrow> Inl TypeError)))"

definition newPoll :: "'i \<Rightarrow> string option \<Rightarrow> jsval \<Rightarrow> error + 'i pollAggregate" where
  "newPoll = newPollWith (\<lambda>s. s)"

definition newPoll_ci :: "'i \<Rightarrow> string option \<Rightarrow> jsval \<Rightarrow> error + 'i pollAggregate" where
  "newPoll_ci = newPollWith toLowerCase"

subsection \<open>The rules of the aggregate, as the specification words them\<close>

text \<open>
  The five rules of the specification, each as a predicate of its own, and the error
  of the first one that an input violates. The functions above are compared with this.
\<close>

definition spec_questionNonEmpty :: "string option \<Rightarrow> bool" where
  "spec_questionNonEmpty q = (case q of None \<Rightarrow> False | Some s \<Rightarrow> trim s \<noteq> [])"

fun spec_elements :: "jsval \<Rightarrow> jsval list" where
  "spec_elements (JArr vs) = vs"
| "spec_elements v = []"

definition spec_atLeastTwo :: "jsval \<Rightarrow> bool" where
  "spec_atLeastTwo opts = (2 \<le> length (spec_elements opts))"

definition spec_allStringTyped :: "jsval \<Rightarrow> bool" where
  "spec_allStringTyped opts = list_all isString (spec_elements opts)"

fun spec_text :: "jsval \<Rightarrow> string" where
  "spec_text (JStr s) = s"
| "spec_text v = []"

definition spec_normalised :: "(string \<Rightarrow> string) \<Rightarrow> jsval \<Rightarrow> string list" where
  "spec_normalised caseFold opts = map (\<lambda>v. caseFold (trim (spec_text v))) (spec_elements opts)"

definition spec_firstViolatedRule ::
  "(string \<Rightarrow> string) \<Rightarrow> string option \<Rightarrow> jsval \<Rightarrow> error option" where
  "spec_firstViolatedRule caseFold q opts =
     (if \<not> spec_questionNonEmpty q then Some QuestionEmpty
      else if \<not> spec_atLeastTwo opts then Some TooFewOptions
      else if \<not> spec_allStringTyped opts then Some OptionsNotStrings
      else if \<not> distinct (spec_normalised caseFold opts) then Some OptionsNotUnique
      else if [] \<in> set (spec_normalised caseFold opts) then Some OptionsEmpty
      else None)"

section \<open>The scenario of the specification\<close>

text \<open>
  The state that the end-to-end scenario reaches: alice and bob are registered, alice
  has created the poll "Pick one?" with the options X and Y, and bob has voted for the
  option at index 1. The document is written as the file holds it, with the ledger as
  a plain object.
\<close>

definition alice :: user where
  "alice = \<lparr>username = ''alice''\<rparr>"

definition bob :: user where
  "bob = \<lparr>username = ''bob''\<rparr>"

definition pickOne :: pollData where
  "pickOne = \<lparr>poll_id = ''p1'', question = ''Pick one?'', options = [''X'', ''Y''],
              creator = ''alice''\<rparr>"

definition scenarioDoc :: document where
  "scenarioDoc =
     setObject ''p1''
       (asObject \<lparr>poll_id = ''p1'', question = ''Pick one?'', options = [''X'', ''Y''],
                  creator = ''alice'', votes = FlatRecord [''bob'' \<mapsto> 1]\<rparr>)
       (setUser ''bob'' bob (setUser ''alice'' alice emptyDocument))"

section \<open>The own properties of a document\<close>

lemma no_own_proto [simp]:
  "users d ''__proto__'' = None" "objects d ''__proto__'' = None"
  by (transfer, simp)+

lemma users_emptyDocument [simp]: "users emptyDocument = Map.empty"
  by transfer simp

lemma objects_emptyDocument [simp]: "objects emptyDocument = Map.empty"
  by transfer simp

lemma users_setUser [simp]:
  "users (setUser key u d) = (if key = ''__proto__'' then users d else (users d)(key \<mapsto> u))"
  by transfer simp

lemma objects_setUser [simp]: "objects (setUser key u d) = objects d"
  by transfer simp

lemma users_setObject [simp]: "users (setObject key x d) = users d"
  by transfer simp

lemma objects_setObject [simp]:
  "objects (setObject key x d) =
     (if key = ''__proto__'' then objects d else (objects d)(key \<mapsto> x))"
  by transfer simp

lemma users_deleteObject [simp]: "users (deleteObject key d) = users d"
  by transfer simp

lemma objects_deleteObject [simp]: "objects (deleteObject key d) = (objects d)(key := None)"
  by transfer simp

lemma users_mapObjects [simp]: "users (mapObjects f d) = users d"
  by transfer simp

lemma objects_mapObjects [simp]: "objects (mapObjects f d) = map_option f \<circ> objects d"
  by transfer simp

lemma document_eqI: "users d = users d' \<Longrightarrow> objects d = objects d' \<Longrightarrow> d = d'"
  by transfer simp

lemma polls_emptyDocument [simp]: "polls emptyDocument = Map.empty"
  by (simp add: polls_def fun_eq_iff)

lemma asPoll_asObject [simp]: "asPoll (asObject p) = Some p"
  by (simp add: asPoll_def asObject_def)

lemma asPoll_Some: "asPoll x = Some p \<longleftrightarrow> x = asObject p"
  by (cases x) (auto simp add: asPoll_def asObject_def split: option.splits)

lemma polls_Some: "polls d pid = Some p \<longleftrightarrow> objects d pid = Some (asObject p)"
  by (auto simp add: polls_def asPoll_Some split: option.splits)

lemma propertyOf_own [simp]: "own key = Some x \<Longrightarrow> propertyOf own key = Own x"
  by (simp add: propertyOf_def)

lemma propertyOf_Own: "propertyOf own key = Own x \<longleftrightarrow> own key = Some x"
  by (simp add: propertyOf_def split: option.splits)

lemma propertyOf_none:
  "own key = None \<Longrightarrow> key \<notin> set objectPrototypeNames \<Longrightarrow> propertyOf own key = NoProperty"
  by (simp add: propertyOf_def)

lemma propertyOf_NoProperty:
  "propertyOf own key = NoProperty \<longleftrightarrow> own key = None \<and> key \<notin> set objectPrototypeNames"
  by (simp add: propertyOf_def split: option.splits)

lemma proto_inherited: "''__proto__'' \<in> set objectPrototypeNames"
  by (simp add: objectPrototypeNames_def)

section \<open>Reading and writing the document\<close>

lemma asPoll_votesToMap:
  "asPoll (votesToMap x) =
     map_option (\<lambda>p. p\<lparr>votes := (case votes p of FlatRecord l \<Rightarrow> MapLedger l
                                    | NoLedger \<Rightarrow> NoLedger | MapLedger l \<Rightarrow> MapLedger l)\<rparr>)
       (asPoll x)"
  by (cases x) (simp add: asPoll_def votesToMap_def split: option.splits votes_repr.splits)

lemma polls_readData:
  "polls (mapObjects votesToMap d) pid =
     map_option (\<lambda>p. p\<lparr>votes := (case votes p of FlatRecord l \<Rightarrow> MapLedger l
                                    | NoLedger \<Rightarrow> NoLedger | MapLedger l \<Rightarrow> MapLedger l)\<rparr>)
       (polls d pid)"
  by (simp add: polls_def asPoll_votesToMap split: option.splits)

lemma written_and_read [simp]:
  "votes p = MapLedger l \<Longrightarrow> votesToMap (votesToRecord (asObject p)) = asObject p"
  by (simp add: votesToMap_def votesToRecord_def asObject_def)

lemma votesToMap_asObject:
  "votesToMap (asObject p) =
     asObject (p\<lparr>votes := (case votes p of FlatRecord l \<Rightarrow> MapLedger l
                               | NoLedger \<Rightarrow> NoLedger | MapLedger l \<Rightarrow> MapLedger l)\<rparr>)"
  by (simp add: votesToMap_def asObject_def split: votes_repr.splits)

lemma scenario_users: "users scenarioDoc = [''alice'' \<mapsto> alice, ''bob'' \<mapsto> bob]"
  by (simp add: scenarioDoc_def)

lemma scenario_objects:
  "objects scenarioDoc =
     [''p1'' \<mapsto> asObject \<lparr>poll_id = ''p1'', question = ''Pick one?'', options = [''X'', ''Y''],
                         creator = ''alice'', votes = FlatRecord [''bob'' \<mapsto> 1]\<rparr>]"
  by (simp add: scenarioDoc_def)

lemma scenario_polls:
  "polls scenarioDoc ''p1'' =
     Some \<lparr>poll_id = ''p1'', question = ''Pick one?'', options = [''X'', ''Y''],
           creator = ''alice'', votes = FlatRecord [''bob'' \<mapsto> 1]\<rparr>"
  by (simp add: polls_def scenario_objects)

lemma writeData_plain [simp]: "writeData d None = Inr (Holding (mapObjects votesToRecord d))"
  by (simp add: writeData_def)

lemma findUser_readData:
  "readData m = Inr d \<Longrightarrow> findUser m key = Inr (propertyOf (users d) key)"
  by (simp add: findUser_def findUserByUsername_def)

lemma findPollById_readData:
  "readData m = Inr d \<Longrightarrow> findPollById m pid = Inr (propertyOf (objects d) pid)"
  by (simp add: findPollById_def)

text \<open>
  C5. When the file is missing or its text does not parse, \<open>readData\<close> returns the empty
  document (no users, no polls) and does not fail. When the file holds a document,
  \<open>readData\<close> returns it: the same users, the same poll ids, every poll with its id,
  question, options and creator, and every ledger that the file holds as a plain object
  turned into a Map with the same entries.
\<close>

theorem readData_bootstrap:
  "readData Absent = Inr emptyDocument \<and> readData Unparsable = Inr emptyDocument
   \<and> users emptyDocument = Map.empty \<and> polls emptyDocument = Map.empty
   \<and> (\<exists>d'. readData (Holding d) = Inr d' \<and> users d' = users d
        \<and> (\<forall>pid. polls d pid = None \<longrightarrow> polls d' pid = None)
        \<and> (\<forall>pid p. polls d pid = Some p \<longrightarrow>
              (\<exists>p'. polls d' pid = Some p' \<and> poll_id p' = poll_id p \<and> question p' = question p
                  \<and> options p' = options p \<and> creator p' = creator p
                  \<and> (\<forall>l. votes p = FlatRecord l \<longrightarrow> votes p' = MapLedger l)
                  \<and> (\<forall>l. votes p = MapLedger l \<longrightarrow> votes p' = MapLedger l)
                  \<and> (votes p = NoLedger \<longrightarrow> votes p' = NoLedger))))"
  by (simp add: polls_readData)

theorem readData_bootstrap_witness:
  "\<exists>d' p'. readData (Holding scenarioDoc) = Inr d' \<and> polls d' ''p1'' = Some p'
     \<and> votes p' = MapLedger [''bob'' \<mapsto> 1] \<and> options p' = [''X'', ''Y'']"
proof -
  from readData_bootstrap [of scenarioDoc] obtain d' where
    r: "readData (Holding scenarioDoc) = Inr d'" and
    p: "\<forall>pid p. polls scenarioDoc pid = Some p \<longrightarrow>
          (\<exists>p'. polls d' pid = Some p' \<and> poll_id p' = poll_id p \<and> question p' = question p
              \<and> options p' = options p \<and> creator p' = creator p
              \<and> (\<forall>l. votes p = FlatRecord l \<longrightarrow> votes p' = MapLedger l)
              \<and> (\<forall>l. votes p = MapLedger l \<longrightarrow> votes p' = MapLedger l)
              \<and> (votes p = NoLedger \<longrightarrow> votes p' = NoLedger))"
    by blast
  from p [rule_format, OF scenario_polls] obtain p' where
    "polls d' ''p1'' = Some p'" "options p' = [''X'', ''Y'']"
    "votes p' = MapLedger [''bob'' \<mapsto> 1]"
    by auto
  with r show ?thesis by blast
qed

text \<open>
  C10. On a readable store whose polls already have the id of \<open>pd\<close>, the store's
  \<open>createPoll\<close> does not fail: it returns the new poll with an empty Map as ledger, and
  the document read back has that poll under the id in place of the old one. The
  store's \<open>createUser\<close>, by contrast, fails on a username that exists, and writes
  nothing.
\<close>

theorem storage_createPoll_replaces:
  "readData m = Inr d \<Longrightarrow> polls d (poll_id pd) = Some old \<Longrightarrow>
   (\<exists>m' d'. storage_createPoll m pd =
        (Inr \<lparr>poll_id = poll_id pd, question = question pd, options = options pd,
              creator = creator pd, votes = MapLedger Map.empty\<rparr>, m')
      \<and> readData m' = Inr d'
      \<and> polls d' (poll_id pd) =
          Some \<lparr>poll_id = poll_id pd, question = question pd, options = options pd,
                creator = creator pd, votes = MapLedger Map.empty\<rparr>)
   \<and> (\<forall>name. users d name \<noteq> None \<longrightarrow>
          storage_createUser m name = (Inl (UserAlreadyExists name), m))"
proof -
  assume d: "readData m = Inr d" and old: "polls d (poll_id pd) = Some old"
  from old have "objects d (poll_id pd) \<noteq> None"
    by (simp add: polls_def split: option.splits)
  then have key: "poll_id pd \<noteq> ''__proto__''"
    by auto
  have "\<And>name. users d name \<noteq> None \<Longrightarrow> propertyOf (users d) name \<noteq> NoProperty"
    by (auto simp add: propertyOf_def)
  with d key show ?thesis
    by (simp add: storage_createPoll_def storage_createUser_def assignObject_def polls_Some
        Let_def)
qed

theorem storage_createPoll_replaces_witness:
  "(\<exists>m' d' p. storage_createPoll (Holding scenarioDoc)
         \<lparr>poll_id = ''p1'', question = ''Other?'', options = [''A'', ''B''], creator = ''bob''\<rparr>
        = (Inr p, m')
      \<and> readData m' = Inr d' \<and> polls d' ''p1'' = Some p
      \<and> question p = ''Other?'' \<and> votes p = MapLedger Map.empty)
   \<and> storage_createUser (Holding scenarioDoc) ''bob''
        = (Inl (UserAlreadyExists ''bob''), Holding scenarioDoc)"
  using storage_createPoll_replaces [of "Holding scenarioDoc" _
      "\<lparr>poll_id = ''p1'', question = ''Other?'', options = [''A'', ''B''], creator = ''bob''\<rparr>",
      OF readData.simps(4)]
  by (auto simp add: polls_readData scenario_polls scenario_users propertyOf_def)

section \<open>Creating and updating a poll in the store\<close>

text \<open>
  Under every id but \<^verbatim>\<open>__proto__\<close> a poll that the store creates is read back as it
  was returned, with an empty Map as ledger.
\<close>

lemma storage_createPoll_roundtrip:
  "readData m = Inr d \<Longrightarrow> poll_id pd \<noteq> ''__proto__'' \<Longrightarrow>
   \<exists>p m' d'. storage_createPoll m pd = (Inr p, m') \<and> readData m' = Inr d'
      \<and> polls d' (poll_id pd) = Some p \<and> findPollById m' (poll_id pd) = Inr (Own (asObject p))
      \<and> votes p = MapLedger Map.empty \<and> poll_id p = poll_id pd \<and> question p = question pd
      \<and> options p = options pd \<and> creator p = creator pd"
  by (simp add: storage_createPoll_def findPollById_def assignObject_def Let_def polls_Some)

text \<open>
  C6, at the id \<^verbatim>\<open>__proto__\<close>. On an empty store \<open>createPoll\<close> returns the poll, but the
  assignment makes it the prototype of \<^verbatim>\<open>data.polls\<close> and \<open>writeData\<close> writes its
  properties as if they were polls. Read back, the id finds the inherited prototype
  and not the poll, no poll is stored under it, and the key \<^verbatim>\<open>question\<close> holds an
  object with no property of a poll.
\<close>

theorem storage_createPoll_proto_id:
  "fst (storage_createPoll Absent
          \<lparr>poll_id = ''__proto__'', question = ''Q?'', options = [''A'', ''B''],
           creator = ''alice''\<rparr>)
     = Inr \<lparr>poll_id = ''__proto__'', question = ''Q?'', options = [''A'', ''B''],
            creator = ''alice'', votes = MapLedger Map.empty\<rparr>
   \<and> findPollById
         (snd (storage_createPoll Absent
                 \<lparr>poll_id = ''__proto__'', question = ''Q?'', options = [''A'', ''B''],
                  creator = ''alice''\<rparr>)) ''__proto__''
       = Inr Inherited
   \<and> findPollById
         (snd (storage_createPoll Absent
                 \<lparr>poll_id = ''__proto__'', question = ''Q?'', options = [''A'', ''B''],
                  creator = ''alice''\<rparr>)) ''question''
       = Inr (Own \<lparr>obj_id = None, obj_question = None, obj_options = None,
                    obj_creator = None, obj_votes = MapLedger Map.empty\<rparr>)"
  by (simp add: storage_createPoll_def assignObject_def Let_def writeData_def asObject_def
      enumerableNames_def writeInherited_def strayObject_def findPollById_def propertyOf_def
      objectPrototypeNames_def votesToMap_def votesToRecord_def)

text \<open>
  Under an id that the store holds a poll for, \<open>updatePoll\<close> returns and stores the
  merged poll; under an id that it holds nothing for, and that no object inherits, it
  fails and leaves the file as it is.
\<close>

lemma mergePoll_asObject:
  "mergePoll (asObject p) u =
     asObject
       \<lparr>poll_id = (case patch_id u of Some v \<Rightarrow> v | None \<Rightarrow> poll_id p),
        question = (case patch_question u of Some v \<Rightarrow> v | None \<Rightarrow> question p),
        options = (case patch_options u of Some v \<Rightarrow> v | None \<Rightarrow> options p),
        creator = (case patch_creator u of Some v \<Rightarrow> v | None \<Rightarrow> creator p),
        votes = (case patch_votes u of Some (MapLedger l) \<Rightarrow> MapLedger l | _ \<Rightarrow> votes p)\<rparr>"
  by (simp add: mergePoll_def asObject_def split: option.splits votes_repr.splits)

lemma updatePoll_stored:
  assumes "readData m = Inr d" and "polls d pid = Some p"
  shows "\<exists>m'. updatePoll m pid u = (Inr (mergePoll (asObject p) u), m')
           \<and> findPollById m' pid
               = Inr (Own (votesToMap (votesToRecord (mergePoll (asObject p) u))))"
proof -
  from assms(2) have own: "objects d pid = Some (asObject p)"
    by (simp add: polls_Some)
  then have "pid \<noteq> ''__proto__''" by auto
  with assms(1) own show ?thesis
    by (simp add: updatePoll_def assignObject_def Let_def findPollById_def propertyOf_def)
qed

lemma updatePoll_absent:
  assumes "readData m = Inr d" and "objects d pid = None"
    and "pid \<notin> set objectPrototypeNames"
  shows "updatePoll m pid u = (Inl (PollNotFoundForUpdate pid), m)"
  using assms by (simp add: updatePoll_def propertyOf_none)

text \<open>
  C8, at the id \<^verbatim>\<open>constructor\<close>. The store of the scenario holds nothing under it, yet
  \<open>updatePoll\<close> does not fail: it finds the inherited function, returns an object that
  has the properties of the patch only, and stores it under the id.
\<close>

theorem updatePoll_inherited_id:
  "objects scenarioDoc ''constructor'' = None
   \<and> fst (updatePoll (Holding scenarioDoc) ''constructor''
            \<lparr>patch_id = None, patch_question = Some ''Pick two?'', patch_options = None,
             patch_creator = None, patch_votes = None\<rparr>)
       = Inr \<lparr>obj_id = None, obj_question = Some ''Pick two?'', obj_options = None,
              obj_creator = None, obj_votes = NoLedger\<rparr>
   \<and> findPollById
         (snd (updatePoll (Holding scenarioDoc) ''constructor''
                 \<lparr>patch_id = None, patch_question = Some ''Pick two?'', patch_options = None,
                  patch_creator = None, patch_votes = None\<rparr>)) ''constructor''
       = Inr (Own \<lparr>obj_id = None, obj_question = Some ''Pick two?'', obj_options = None,
                    obj_creator = None, obj_votes = MapLedger Map.empty\<rparr>)"
  by (simp add: updatePoll_def assignObject_def Let_def mergePoll_def noProperties_def
      findPollById_def propertyOf_def objectPrototypeNames_def scenario_objects
      votesToMap_def votesToRecord_def)

section \<open>Deleting a poll\<close>

lemma storage_deletePoll_present:
  assumes "readData m = Inr d" and "objects d pid = Some x"
    and "pid \<notin> set objectPrototypeNames"
  shows "\<exists>m'. storage_deletePoll m pid = (Inr True, m') \<and> findPollById m' pid = Inr NoProperty"
  using assms
  by (simp add: storage_deletePoll_def findPollById_def propertyOf_def)

lemma scenario_poll:
  "findPollById (Holding scenarioDoc) ''p1'' =
     Inr (Own (asObject \<lparr>poll_id = ''p1'', question = ''Pick one?'', options = [''X'', ''Y''],
                         creator = ''alice'', votes = MapLedger [''bob'' \<mapsto> 1]\<rparr>))"
  by (simp add: findPollById_def scenario_objects votesToMap_asObject)

text \<open>
  C3, as the code has it. The service trims the requesting username before it compares
  it with the creator, so " alice" deletes alice's poll although the two strings
  differ.
\<close>

theorem deletePoll_exact_match_counterexample:
  "findPollById (Holding scenarioDoc) ''p1'' =
      Inr (Own (asObject \<lparr>poll_id = ''p1'', question = ''Pick one?'', options = [''X'', ''Y''],
                          creator = ''alice'', votes = MapLedger [''bob'' \<mapsto> 1]\<rparr>))
   \<and> '' alice'' \<noteq> ''alice''
   \<and> fst (pollService_deletePoll (Holding scenarioDoc) ''p1'' '' alice'') = Inr True
   \<and> findPollById (snd (pollService_deletePoll (Holding scenarioDoc) ''p1'' '' alice'')) ''p1''
       = Inr NoProperty"
proof -
  have t: "trim '' alice'' = ''alice''"
    by (simp add: trim_def isWhiteSpace_def)
  have "pollService_deletePoll (Holding scenarioDoc) ''p1'' '' alice''
        = storage_deletePoll (Holding scenarioDoc) ''p1''"
    by (simp add: pollService_deletePoll_def scenario_poll t asObject_def)
  moreover have "fst (storage_deletePoll (Holding scenarioDoc) ''p1'') = Inr True
      \<and> findPollById (snd (storage_deletePoll (Holding scenarioDoc) ''p1'')) ''p1'' = Inr NoProperty"
    by (simp add: storage_deletePoll_def findPollById_def propertyOf_def
          objectPrototypeNames_def scenario_objects)
  ultimately show ?thesis
    by (simp add: scenario_poll)
qed

text \<open>
  C3, amended. Take a readable store, a non-empty requesting username and a non-empty
  poll id that is not the name of a property that every object inherits. Then
  \<open>deletePoll\<close> fails with "poll not found" when the store holds nothing under the id;
  fails with "not authorized" when the requesting username, trimmed, differs from the
  creator of the poll stored under the id (compared as they are, without case
  folding), and the poll is still found afterwards; and when the trimmed username
  equals the creator it deletes the poll, returns true, and the id finds nothing
  afterwards.
\<close>

theorem pollService_deletePoll_cases:
  assumes "readData m = Inr d" and "pollId \<noteq> []" and "requester \<noteq> []"
    and "pollId \<notin> set objectPrototypeNames"
  shows "(objects d pollId = None \<longrightarrow>
            pollService_deletePoll m pollId requester = (Inl (PollNotFound pollId), m))
       \<and> (\<forall>p. polls d pollId = Some p \<and> creator p \<noteq> trim requester \<longrightarrow>
            pollService_deletePoll m pollId requester = (Inl (NotAuthorized requester pollId), m)
            \<and> findPollById m pollId = Inr (Own (asObject p)))
       \<and> (\<forall>p. polls d pollId = Some p \<and> creator p = trim requester \<longrightarrow>
            (\<exists>m'. pollService_deletePoll m pollId requester = (Inr True, m')
               \<and> findPollById m' pollId = Inr NoProperty))"
proof (intro conjI allI impI)
  assume "objects d pollId = None"
  with assms show "pollService_deletePoll m pollId requester = (Inl (PollNotFound pollId), m)"
    by (simp add: pollService_deletePoll_def findPollById_def propertyOf_none)
next
  fix p
  assume "polls d pollId = Some p \<and> creator p \<noteq> trim requester"
  then have own: "objects d pollId = Some (asObject p)" and c: "creator p \<noteq> trim requester"
    by (simp_all add: polls_Some)
  from assms own show "findPollById m pollId = Inr (Own (asObject p))"
    by (simp add: findPollById_def)
  with assms c
  show "pollService_deletePoll m pollId requester = (Inl (NotAuthorized requester pollId), m)"
    by (simp add: pollService_deletePoll_def asObject_def)
next
  fix p
  assume "polls d pollId = Some p \<and> creator p = trim requester"
  then have own: "objects d pollId = Some (asObject p)" and c: "creator p = trim requester"
    by (simp_all add: polls_Some)
  from assms own have "findPollById m pollId = Inr (Own (asObject p))"
    by (simp add: findPollById_def)
  with assms c
  have "pollService_deletePoll m pollId requester = storage_deletePoll m pollId"
    by (simp add: pollService_deletePoll_def asObject_def)
  with storage_deletePoll_present [OF assms(1) own assms(4)]
  show "\<exists>m'. pollService_deletePoll m pollId requester = (Inr True, m')
               \<and> findPollById m' pollId = Inr NoProperty"
    by simp
qed

theorem pollService_deletePoll_cases_witness:
  "pollService_deletePoll (Holding scenarioDoc) ''p2'' ''alice''
     = (Inl (PollNotFound ''p2''), Holding scenarioDoc)
   \<and> pollService_deletePoll (Holding scenarioDoc) ''p1'' ''bob''
     = (Inl (NotAuthorized ''bob'' ''p1''), Holding scenarioDoc)
   \<and> (\<exists>m'. pollService_deletePoll (Holding scenarioDoc) ''p1'' ''alice'' = (Inr True, m')
         \<and> findPollById m' ''p1'' = Inr NoProperty)"
proof -
  have names: "''p1'' \<notin> set objectPrototypeNames" "''p2'' \<notin> set objectPrototypeNames"
    by (simp_all add: objectPrototypeNames_def)
  have t: "trim ''alice'' = ''alice''" "trim ''bob'' = ''bob''"
    by (simp_all add: trim_def isWhiteSpace_def)
  have p: "polls (mapObjects votesToMap scenarioDoc) ''p1'' =
      Some \<lparr>poll_id = ''p1'', question = ''Pick one?'', options = [''X'', ''Y''],
            creator = ''alice'', votes = MapLedger [''bob'' \<mapsto> 1]\<rparr>"
    by (simp add: polls_readData scenario_polls)
  show ?thesis
    using pollService_deletePoll_cases [of "Holding scenarioDoc" _ "''p2''" "''alice''",
        OF readData.simps(4) _ _ names(2)]
      pollService_deletePoll_cases [of "Holding scenarioDoc" _ "''p1''" "''bob''",
        OF readData.simps(4) _ _ names(1)]
      pollService_deletePoll_cases [of "Holding scenarioDoc" _ "''p1''" "''alice''",
        OF readData.simps(4) _ _ names(1)]
    by (simp add: p t scenario_objects)
qed

section \<open>Voting\<close>

lemma trim_Nil: "trim [] = []"
  by (simp add: trim_def)

text \<open>
  On a poll, the index test of \<open>vote\<close> raises no error and rejects exactly the values
  that are not an integer in the range of the poll's options.
\<close>

lemma invalidOptionIndex_iff:
  "invalidOptionIndex v (asObject p) =
     Inr (\<not> (\<exists>k. v = JNum (of_int k) \<and> 0 \<le> k \<and> k < int (length (options p))))"
proof (cases v)
  case (JNum r)
  show ?thesis
  proof (cases "rat_of_int \<lfloor>r\<rfloor> = r")
    case True
    then obtain k where r: "r = of_int k" by metis
    show ?thesis
      unfolding JNum r by (auto simp add: invalidOptionIndex_def asObject_def)
  next
    case False
    then have "\<And>k. r \<noteq> of_int k" by auto
    then show ?thesis
      unfolding JNum using False by (auto simp add: invalidOptionIndex_def)
  qed
qed (auto simp add: invalidOptionIndex_def)

lemma scenario_found:
  "findUser (Holding scenarioDoc) ''alice'' = Inr (Own alice)"
  "findUser (Holding scenarioDoc) ''bob'' = Inr (Own bob)"
  by (simp_all add: findUser_def findUserByUsername_def scenario_users)

lemma trim_names:
  "trim ''alice'' = ''alice''" "trim ''bob'' = ''bob''"
  by (simp_all add: trim_def isWhiteSpace_def)

text \<open>
  A vote that passes every check is recorded: the poll read back afterwards has the
  voter's entry added to its ledger and is otherwise the stored poll.
\<close>

lemma vote_accepts:
  assumes "findPollById m pollId = Inr (Own (asObject p))"
    and "findUser m (trim name) = Inr (Own u)"
    and "pollId \<noteq> []" and "name \<noteq> []"
    and "0 \<le> k" and "k < int (length (options p))"
    and "votes p = MapLedger l" and "l (trim name) = None"
  shows "\<exists>m'. vote m pollId (JNum (of_int k)) name
                 = (Inr (asObject (p\<lparr>votes := MapLedger (l(trim name \<mapsto> k))\<rparr>)), m')
           \<and> findPollById m' pollId = Inr (Own (asObject (p\<lparr>votes := MapLedger (l(trim name \<mapsto> k))\<rparr>)))
           \<and> findUser m' (trim name) = Inr (Own u)"
proof -
  from assms(1) obtain d where d: "readData m = Inr d"
    and own: "objects d pollId = Some (asObject p)"
    by (auto simp add: findPollById_def propertyOf_Own split: sum.splits)
  from own have key: "pollId \<noteq> ''__proto__''" by auto
  from assms(2) d have u: "users d (trim name) = Some u"
    by (simp add: findUser_readData propertyOf_Own)
  have valid: "invalidOptionIndex (JNum (of_int k)) (asObject p) = Inr False"
    using assms(5,6) by (auto simp add: invalidOptionIndex_iff)
  let ?q = "p\<lparr>votes := MapLedger (l(trim name \<mapsto> k))\<rparr>"
  have merged: "mergePoll (asObject p) (votesOnly (MapLedger (l(trim name \<mapsto> k)))) = asObject ?q"
    by (simp add: mergePoll_def votesOnly_def asObject_def)
  have "vote m pollId (JNum (of_int k)) name
        = (Inr (asObject ?q), Holding (mapObjects votesToRecord (setObject pollId (asObject ?q) d)))"
    using assms valid d own key merged
    by (simp add: vote_def Let_def updatePoll_def assignObject_def asObject_def)
  moreover have "findPollById (Holding (mapObjects votesToRecord (setObject pollId (asObject ?q) d)))
        pollId = Inr (Own (asObject ?q))"
    using key by (simp add: findPollById_def)
  moreover have "findUser (Holding (mapObjects votesToRecord (setObject pollId (asObject ?q) d)))
        (trim name) = Inr (Own u)"
    using u by (simp add: findUser_def findUserByUsername_def)
  ultimately show ?thesis by simp
qed

text \<open>
  C1, as the code has it. \<open>vote\<close> checks the option index before it looks at the
  ledger: bob, who has voted in the poll, votes again with the index 99 and is told
  that the index is invalid, not that he has already voted.
\<close>

theorem vote_any_index_counterexample:
  "findUser (Holding scenarioDoc) ''bob'' = Inr (Own bob)
   \<and> findPollById (Holding scenarioDoc) ''p1'' =
       Inr (Own (asObject \<lparr>poll_id = ''p1'', question = ''Pick one?'', options = [''X'', ''Y''],
                           creator = ''alice'', votes = MapLedger [''bob'' \<mapsto> 1]\<rparr>))
   \<and> vote (Holding scenarioDoc) ''p1'' (JNum 99) ''bob''
       = (Inl (InvalidOptionIndex (JNum 99) ''p1''), Holding scenarioDoc)
   \<and> InvalidOptionIndex (JNum 99) ''p1'' \<noteq> AlreadyVoted ''bob'' ''p1''"
  by (simp add: vote_def Let_def scenario_poll scenario_found trim_names
        invalidOptionIndex_def asObject_def)

text \<open>
  C1, amended. Take a stored poll with a non-empty id and a non-empty username whose
  trimmed form is registered and is a key of the poll's ledger. A further call of
  \<open>vote\<close> by that username fails whatever the option index is: with the error that the
  arguments are required when the index is \<^verbatim>\<open>undefined\<close>, with "already voted" when the
  index is an integer in the range of the options, and with "invalid option index" in
  every other case. The file is left as it was, and the poll read back afterwards is
  the stored one, whose ledger still maps the username to the index of the first vote.
\<close>

theorem vote_second_attempt:
  assumes "findPollById m pollId = Inr (Own (asObject p))"
    and "findUser m (trim name) = Inr (Own u)"
    and "pollId \<noteq> []" and "name \<noteq> []"
    and "votes p = MapLedger l" and "l (trim name) = Some i"
  shows "vote m pollId optionIndex name =
           (Inl (if optionIndex = JUndefined then VoteArgsRequired
                 else if \<exists>k. optionIndex = JNum (of_int k) \<and> 0 \<le> k
                            \<and> k < int (length (options p))
                 then AlreadyVoted (trim name) pollId
                 else InvalidOptionIndex optionIndex pollId), m)
       \<and> findPollById (snd (vote m pollId optionIndex name)) pollId = Inr (Own (asObject p))
       \<and> votes p = MapLedger l \<and> l (trim name) = Some i"
proof -
  have v: "obj_votes (asObject p) = MapLedger l"
    using assms(5) by (simp add: asObject_def)
  have "vote m pollId optionIndex name =
           (Inl (if optionIndex = JUndefined then VoteArgsRequired
                 else if \<exists>k. optionIndex = JNum (of_int k) \<and> 0 \<le> k
                            \<and> k < int (length (options p))
                 then AlreadyVoted (trim name) pollId
                 else InvalidOptionIndex optionIndex pollId), m)"
  proof (cases "\<exists>k. optionIndex = JNum (of_int k) \<and> 0 \<le> k \<and> k < int (length (options p))")
    case True
    then have "invalidOptionIndex optionIndex (asObject p) = Inr False"
      and "optionIndex \<noteq> JUndefined"
      by (auto simp add: invalidOptionIndex_iff)
    with True assms v show ?thesis
      by (simp add: vote_def Let_def del: not_ex)
  next
    case False
    then have "invalidOptionIndex optionIndex (asObject p) = Inr True"
      by (simp add: invalidOptionIndex_iff)
    with False assms v show ?thesis
      by (simp add: vote_def Let_def del: not_ex)
  qed
  with assms show ?thesis by simp
qed

theorem vote_second_attempt_witness:
  "vote (Holding scenarioDoc) ''p1'' (JNum 0) ''bob''
     = (Inl (AlreadyVoted ''bob'' ''p1''), Holding scenarioDoc)
   \<and> vote (Holding scenarioDoc) ''p1'' (JNum 99) ''bob''
     = (Inl (InvalidOptionIndex (JNum 99) ''p1''), Holding scenarioDoc)
   \<and> vote (Holding scenarioDoc) ''p1'' JUndefined ''bob''
     = (Inl VoteArgsRequired, Holding scenarioDoc)
   \<and> findPollById (snd (vote (Holding scenarioDoc) ''p1'' (JNum 0) ''bob'')) ''p1''
     = Inr (Own (asObject \<lparr>poll_id = ''p1'', question = ''Pick one?'', options = [''X'', ''Y''],
                           creator = ''alice'', votes = MapLedger [''bob'' \<mapsto> 1]\<rparr>))
   \<and> (\<exists>x m'. vote (Holding scenarioDoc) ''p1'' (JNum 0) ''alice'' = (Inr x, m')
         \<and> obj_votes x = MapLedger [''bob'' \<mapsto> 1, ''alice'' \<mapsto> 0]
         \<and> vote m' ''p1'' (JNum 1) ''alice'' = (Inl (AlreadyVoted ''alice'' ''p1''), m')
         \<and> findPollById (snd (vote m' ''p1'' (JNum 1) ''alice'')) ''p1'' = Inr (Own x))"
proof -
  let ?p = "\<lparr>poll_id = ''p1'', question = ''Pick one?'', options = [''X'', ''Y''],
             creator = ''alice'', votes = MapLedger [''bob'' \<mapsto> 1]\<rparr>"
  have first: "vote (Holding scenarioDoc) ''p1'' (JNum 0) ''bob''
       = (Inl (AlreadyVoted ''bob'' ''p1''), Holding scenarioDoc)
     \<and> vote (Holding scenarioDoc) ''p1'' (JNum 99) ''bob''
       = (Inl (InvalidOptionIndex (JNum 99) ''p1''), Holding scenarioDoc)
     \<and> vote (Holding scenarioDoc) ''p1'' JUndefined ''bob''
       = (Inl VoteArgsRequired, Holding scenarioDoc)
     \<and> findPollById (snd (vote (Holding scenarioDoc) ''p1'' (JNum 0) ''bob'')) ''p1''
       = Inr (Own (asObject ?p))"
    using vote_second_attempt [of "Holding scenarioDoc" "''p1''" ?p "''bob''" bob
        "[''bob'' \<mapsto> 1]" 1 "JNum 0", OF scenario_poll]
      vote_second_attempt [of "Holding scenarioDoc" "''p1''" ?p "''bob''" bob
        "[''bob'' \<mapsto> 1]" 1 "JNum 99", OF scenario_poll]
      vote_second_attempt [of "Holding scenarioDoc" "''p1''" ?p "''bob''" bob
        "[''bob'' \<mapsto> 1]" 1 "JUndefined", OF scenario_poll]
    by (simp add: scenario_found trim_names scenario_poll)
  let ?q = "?p\<lparr>votes := MapLedger [''bob'' \<mapsto> 1, ''alice'' \<mapsto> 0]\<rparr>"
  from vote_accepts [of "Holding scenarioDoc" "''p1''" ?p "''alice''" alice 0
      "[''bob'' \<mapsto> 1]", OF scenario_poll]
  obtain m' where a: "vote (Holding scenarioDoc) ''p1'' (JNum 0) ''alice'' = (Inr (asObject ?q), m')"
    and q: "findPollById m' ''p1'' = Inr (Own (asObject ?q))"
    and u: "findUser m' ''alice'' = Inr (Own alice)"
    by (auto simp add: scenario_found trim_names)
  from vote_second_attempt [of m' "''p1''" ?q "''alice''" alice
      "[''bob'' \<mapsto> 1, ''alice'' \<mapsto> 0]" 0 "JNum 1"] q u
  have "vote m' ''p1'' (JNum 1) ''alice'' = (Inl (AlreadyVoted ''alice'' ''p1''), m')
     \<and> findPollById (snd (vote m' ''p1'' (JNum 1) ''alice'')) ''p1'' = Inr (Own (asObject ?q))"
    by (simp add: trim_names)
  moreover have "obj_votes (asObject ?q) = MapLedger [''bob'' \<mapsto> 1, ''alice'' \<mapsto> 0]"
    by (simp add: asObject_def)
  ultimately show ?thesis using first a by blast
qed

text \<open>One half is not an integer.\<close>

lemma half_not_integer: "rat_of_int k * 2 \<noteq> 1"
proof
  assume "rat_of_int k * 2 = 1"
  then have "rat_of_int (k * 2) = rat_of_int 1" by simp
  then have "k * 2 = 1" by (simp only: of_int_eq_iff)
  then show False by presburger
qed

text \<open>
  C2, as the code has it. \<^verbatim>\<open>undefined\<close> is not an integer, but \<open>vote\<close> rejects a missing
  option index in its first check, with the error that its arguments are required.
\<close>

theorem vote_missing_index_counterexample:
  "findUser (Holding scenarioDoc) ''alice'' = Inr (Own alice)
   \<and> findPollById (Holding scenarioDoc) ''p1'' =
       Inr (Own (asObject \<lparr>poll_id = ''p1'', question = ''Pick one?'', options = [''X'', ''Y''],
                           creator = ''alice'', votes = MapLedger [''bob'' \<mapsto> 1]\<rparr>))
   \<and> \<not> isInteger JUndefined
   \<and> vote (Holding scenarioDoc) ''p1'' JUndefined ''alice''
       = (Inl VoteArgsRequired, Holding scenarioDoc)
   \<and> VoteArgsRequired \<noteq> InvalidOptionIndex JUndefined ''p1''"
  by (simp add: vote_def scenario_poll scenario_found)

text \<open>
  C2, amended. Take a stored poll with a non-empty id, a non-empty username whose
  trimmed form is registered, and an option index other than \<^verbatim>\<open>undefined\<close> that is not
  an integer in the range from 0 up to (not including) the number of options. Then
  \<open>vote\<close> fails with "invalid option index", the file is left as it was, and the poll
  read back afterwards is the stored one, ledger included.
\<close>

theorem vote_invalid_index:
  assumes "findPollById m pollId = Inr (Own (asObject p))"
    and "findUser m (trim name) = Inr (Own u)"
    and "pollId \<noteq> []" and "name \<noteq> []" and "optionIndex \<noteq> JUndefined"
    and "\<not> (\<exists>k. optionIndex = JNum (of_int k) \<and> 0 \<le> k \<and> k < int (length (options p)))"
  shows "vote m pollId optionIndex name = (Inl (InvalidOptionIndex optionIndex pollId), m)
       \<and> findPollById (snd (vote m pollId optionIndex name)) pollId = Inr (Own (asObject p))"
  using assms by (simp add: vote_def Let_def invalidOptionIndex_iff)

theorem vote_invalid_index_witness:
  "vote (Holding scenarioDoc) ''p1'' (JNum 99) ''alice''
     = (Inl (InvalidOptionIndex (JNum 99) ''p1''), Holding scenarioDoc)
   \<and> vote (Holding scenarioDoc) ''p1'' (JNum (- 1)) ''alice''
     = (Inl (InvalidOptionIndex (JNum (- 1)) ''p1''), Holding scenarioDoc)
   \<and> vote (Holding scenarioDoc) ''p1'' (JNum (1 / 2)) ''alice''
     = (Inl (InvalidOptionIndex (JNum (1 / 2)) ''p1''), Holding scenarioDoc)
   \<and> vote (Holding scenarioDoc) ''p1'' (JStr ''1'') ''alice''
     = (Inl (InvalidOptionIndex (JStr ''1'') ''p1''), Holding scenarioDoc)"
  using vote_invalid_index [of "Holding scenarioDoc" "''p1''" _ "''alice''" alice "JNum 99",
      OF scenario_poll]
    vote_invalid_index [of "Holding scenarioDoc" "''p1''" _ "''alice''" alice "JNum (- 1)",
      OF scenario_poll]
    vote_invalid_index [of "Holding scenarioDoc" "''p1''" _ "''alice''" alice "JNum (1 / 2)",
      OF scenario_poll]
    vote_invalid_index [of "Holding scenarioDoc" "''p1''" _ "''alice''" alice "JStr ''1''",
      OF scenario_poll]
  by (simp add: scenario_found trim_names half_not_integer)

section \<open>Creating a poll through the service\<close>

lemma missingOrBlank_iff:
  "missingOrBlank v \<longleftrightarrow> \<not> (\<exists>s. v = JStr s \<and> trim s \<noteq> [])"
  by (cases v) (auto simp add: missingOrBlank_def trim_Nil)

lemma notNonEmptyString_iff:
  "notNonEmptyString v \<longleftrightarrow> \<not> (\<exists>s. v = JStr s \<and> trim s \<noteq> [])"
  by (cases v) (auto simp add: notNonEmptyString_def)

lemma trimAll_strings:
  "trimAll (map JStr ss) = Inr (map trim ss)"
  by (induction ss) simp_all

lemma all_strings:
  "list_all isString vs \<Longrightarrow> \<exists>ss. vs = map JStr ss"
proof (induction vs)
  case Nil
  then show ?case by simp
next
  case (Cons v vs)
  then obtain ss where "vs = map JStr ss" by auto
  moreover from Cons.prems obtain s where "v = JStr s" by (cases v) auto
  ultimately have "v # vs = map JStr (s # ss)" by simp
  then show ?case by (rule exI [where x = "s # ss"])
qed

lemma repeated_not_distinct:
  assumes "i < j" and "j < length xs" and "xs ! i = xs ! j"
  shows "card (set xs) \<noteq> length xs"
proof
  assume "card (set xs) = length xs"
  then have "distinct xs" by (rule card_distinct)
  with assms show False by (auto simp add: distinct_conv_nth)
qed

text \<open>
  C4, as the code has it. The service looks for an option that is not a non-empty
  string before it looks for duplicates: with the options A, A and the empty string
  the error is the one about non-empty strings, not the one about uniqueness.
\<close>

theorem createPoll_duplicate_and_empty_counterexample:
  "pollService_createPoll (Holding scenarioDoc) (JStr ''Q?'')
        (JArr [JStr ''A'', JStr ''A'', JStr '''']) (JStr ''alice'') ''p2''
      = (Inl OptionsNotNonEmptyStrings, Holding scenarioDoc)
   \<and> OptionsNotNonEmptyStrings \<noteq> OptionsNotUnique"
  by (simp add: pollService_createPoll_def validatePollData_def missingOrBlank_def
        notNonEmptyString_def trim_def isWhiteSpace_def)

text \<open>
  C4, amended. When two of the options, at different positions, are strings that are
  equal after trimming, \<open>createPoll\<close> fails and writes nothing, so no poll is added. The
  error is that of the first rule violated in the service's order: "question empty"
  when the question is not a string that is non-empty after trimming; otherwise the
  error about non-empty strings when some option is not a string that is non-empty
  after trimming; otherwise the uniqueness error.
\<close>

theorem createPoll_duplicate_options:
  assumes "i < j" and "j < length vs" and "vs ! i = JStr a" and "vs ! j = JStr b"
    and "trim a = trim b"
  shows "\<exists>e. pollService_createPoll m q (JArr vs) creatorUsername pollId = (Inl e, m)
     \<and> (\<not> (\<exists>s. q = JStr s \<and> trim s \<noteq> []) \<longrightarrow> e = QuestionEmpty)
     \<and> ((\<exists>s. q = JStr s \<and> trim s \<noteq> []) \<and> \<not> (\<forall>v \<in> set vs. \<exists>s. v = JStr s \<and> trim s \<noteq> [])
          \<longrightarrow> e = OptionsNotNonEmptyStrings)
     \<and> ((\<exists>s. q = JStr s \<and> trim s \<noteq> []) \<and> (\<forall>v \<in> set vs. \<exists>s. v = JStr s \<and> trim s \<noteq> [])
          \<longrightarrow> e = OptionsNotUnique)"
proof (cases "\<exists>s. q = JStr s \<and> trim s \<noteq> []")
  case False
  then have "validatePollData q (JArr vs) creatorUsername = Inl QuestionEmpty"
    by (simp add: validatePollData_def missingOrBlank_iff)
  with False show ?thesis by (simp add: pollService_createPoll_def)
next
  case question: True
  from assms have len: "\<not> length vs < 2" by simp
  show ?thesis
  proof (cases "\<forall>v \<in> set vs. \<exists>s. v = JStr s \<and> trim s \<noteq> []")
    case False
    then have "list_ex notNonEmptyString vs"
      by (simp add: list_ex_iff notNonEmptyString_iff)
    with question len
    have "validatePollData q (JArr vs) creatorUsername = Inl OptionsNotNonEmptyStrings"
      by (simp add: validatePollData_def missingOrBlank_iff)
    with question False show ?thesis by (simp add: pollService_createPoll_def)
  next
    case True
    then have none: "\<not> list_ex notNonEmptyString vs"
      by (simp add: list_ex_iff notNonEmptyString_iff)
    from True have "list_all isString vs"
      unfolding list_all_iff by auto
    then obtain ss where ss: "vs = map JStr ss" using all_strings by blast
    with assms have "map trim ss ! i = map trim ss ! j" by auto
    with assms ss have "card (set (map trim ss)) \<noteq> length vs"
      using repeated_not_distinct [of i j "map trim ss"] by simp
    with question len none ss
    have "validatePollData q (JArr vs) creatorUsername = Inl OptionsNotUnique"
      by (simp add: validatePollData_def missingOrBlank_iff trimAll_strings)
    with question True show ?thesis by (simp add: pollService_createPoll_def)
  qed
qed

theorem createPoll_duplicate_options_witness:
  "pollService_createPoll (Holding scenarioDoc) (JStr ''Q?'')
      (JArr [JStr ''A'', JStr ''B'', JStr '' A '']) (JStr ''alice'') ''p2''
     = (Inl OptionsNotUnique, Holding scenarioDoc)
   \<and> findPollById (Holding scenarioDoc) ''p2'' = Inr NoProperty"
  using createPoll_duplicate_options [of 0 2 "[JStr ''A'', JStr ''B'', JStr '' A '']"
      "''A''" "'' A ''" "Holding scenarioDoc" "JStr ''Q?''" "JStr ''alice''" "''p2''"]
  by (auto simp add: trim_def isWhiteSpace_def findPollById_def scenario_objects
        propertyOf_def objectPrototypeNames_def)

section \<open>Registering and looking up a user\<close>

lemma storage_createUser_new:
  assumes "readData m = Inr d" and "propertyOf (users d) key = NoProperty"
  shows "\<exists>m'. storage_createUser m key = (Inr \<lparr>username = key\<rparr>, m')
           \<and> findUser m' key = Inr (Own \<lparr>username = key\<rparr>)
           \<and> (\<forall>other. other \<noteq> key \<longrightarrow> findUser m' other = findUser m other)"
proof -
  from assms(2) have none: "users d key = None" and key: "key \<noteq> ''__proto__''"
    by (auto simp add: propertyOf_def objectPrototypeNames_def split: option.splits if_splits)
  with assms show ?thesis
    by (simp add: storage_createUser_def Let_def findUser_def findUserByUsername_def
          propertyOf_def)
qed

text \<open>
  What \<open>createUser\<close> and \<open>findUser\<close> of the registry do. \<open>createUser\<close> fails with the
  validation error, writing nothing, when the username is not a string or is a string
  that is empty after trimming; it fails with the conflict error, writing nothing,
  when the lookup of the trimmed name yields anything, a stored user or an inherited
  value; and when the lookup yields nothing it returns and stores the user under the
  trimmed name, leaving the lookup of every other name as it was. \<open>findUser\<close> looks the
  name up as it is given.
\<close>

lemma userService_createUser_cases:
  "(\<not> (\<exists>s. name = JStr s \<and> trim s \<noteq> []) \<longrightarrow>
       userService_createUser m name = (Inl UsernameEmpty, m))
   \<and> (\<forall>s. name = JStr s \<and> trim s \<noteq> [] \<and> (\<exists>d. readData m = Inr d)
            \<and> findUser m (trim s) \<noteq> Inr NoProperty \<longrightarrow>
         userService_createUser m name = (Inl (UsernameTaken (trim s)), m))
   \<and> (\<forall>s. name = JStr s \<and> trim s \<noteq> [] \<and> findUser m (trim s) = Inr NoProperty \<longrightarrow>
         (\<exists>m'. userService_createUser m name = (Inr \<lparr>username = trim s\<rparr>, m')
            \<and> findUser m' (trim s) = Inr (Own \<lparr>username = trim s\<rparr>)
            \<and> (\<forall>other. other \<noteq> trim s \<longrightarrow> findUser m' other = findUser m other)))
   \<and> (\<forall>d key. readData m = Inr d \<longrightarrow> findUser m key = Inr (propertyOf (users d) key))"
proof (intro conjI allI impI)
  assume "\<not> (\<exists>s. name = JStr s \<and> trim s \<noteq> [])"
  then show "userService_createUser m name = (Inl UsernameEmpty, m)"
    by (simp add: userService_createUser_def missingOrBlank_iff)
next
  fix s
  assume a: "name = JStr s \<and> trim s \<noteq> [] \<and> (\<exists>d. readData m = Inr d)
               \<and> findUser m (trim s) \<noteq> Inr NoProperty"
  then obtain d where d: "readData m = Inr d" by blast
  with a have "propertyOf (users d) (trim s) \<noteq> NoProperty"
    by (simp add: findUser_readData)
  with a d show "userService_createUser m name = (Inl (UsernameTaken (trim s)), m)"
    by (cases "propertyOf (users d) (trim s)")
       (simp_all add: userService_createUser_def missingOrBlank_iff findUserByUsername_def)
next
  fix s
  assume a: "name = JStr s \<and> trim s \<noteq> [] \<and> findUser m (trim s) = Inr NoProperty"
  then obtain d where d: "readData m = Inr d"
    and none: "propertyOf (users d) (trim s) = NoProperty"
    by (auto simp add: findUser_def findUserByUsername_def split: sum.splits)
  from storage_createUser_new [OF d none] obtain m' where
    m': "storage_createUser m (trim s) = (Inr \<lparr>username = trim s\<rparr>, m')"
      "findUser m' (trim s) = Inr (Own \<lparr>username = trim s\<rparr>)"
      "\<forall>other. other \<noteq> trim s \<longrightarrow> findUser m' other = findUser m other"
    by blast
  from a m'(1) have "userService_createUser m name = (Inr \<lparr>username = trim s\<rparr>, m')"
    by (simp add: userService_createUser_def missingOrBlank_iff findUser_def)
  with m' show "\<exists>m'. userService_createUser m name = (Inr \<lparr>username = trim s\<rparr>, m')
            \<and> findUser m' (trim s) = Inr (Own \<lparr>username = trim s\<rparr>)
            \<and> (\<forall>other. other \<noteq> trim s \<longrightarrow> findUser m' other = findUser m other)"
    by simp
next
  fix d key
  assume "readData m = Inr d"
  then show "findUser m key = Inr (propertyOf (users d) key)" by (rule findUser_readData)
qed

text \<open>
  C9, at the username \<^verbatim>\<open>toString\<close> on a store whose file does not exist yet. The
  document that \<open>readData\<close> returns has no user at all, and the name is a non-empty
  string that trimming leaves alone; yet \<open>createUser\<close> fails with the conflict error,
  because the lookup of the name yields the function that every object inherits, and
  \<open>findUser\<close> returns that function where it is to return \<^verbatim>\<open>undefined\<close>. The same
  happens on every readable store and for each of the inherited names.
\<close>

theorem userService_createUser_inherited_name:
  "readData Absent = Inr emptyDocument
   \<and> users emptyDocument = Map.empty
   \<and> trim ''toString'' = ''toString''
   \<and> userService_createUser Absent (JStr ''toString'')
       = (Inl (UsernameTaken ''toString''), Absent)
   \<and> findUser Absent ''toString'' = Inr Inherited"
  by (simp add: userService_createUser_def missingOrBlank_def findUser_def
        findUserByUsername_def propertyOf_def objectPrototypeNames_def
        trim_def isWhiteSpace_def)

section \<open>The order of the aggregate's validation\<close>

lemma trimAll_all_strings:
  "list_all isString vs \<Longrightarrow> trimAll vs = Inr (map (\<lambda>v. trim (spec_text v)) vs)"
  by (induction vs rule: trimAll.induct) (auto elim: isString.elims)

lemma validateInputsWith_rules:
  "validateInputsWith caseFold q opts =
     (case spec_firstViolatedRule caseFold q opts of Some e \<Rightarrow> Inl e | None \<Rightarrow> Inr ())"
proof (cases "spec_questionNonEmpty q")
  case False
  then show ?thesis
    by (cases q) (simp_all add: validateInputsWith_def spec_firstViolatedRule_def
        spec_questionNonEmpty_def)
next
  case question: True
  then have q: "truthy (optTrim q)"
    by (cases q) (simp_all add: spec_questionNonEmpty_def)
  show ?thesis
  proof (cases opts)
    case (JArr vs)
    show ?thesis
    proof (cases "2 \<le> length vs \<and> list_all isString vs")
      case False
      with q question JArr show ?thesis
        by (auto simp add: validateInputsWith_def spec_firstViolatedRule_def
            spec_atLeastTwo_def spec_allStringTyped_def)
    next
      case True
      then have t: "trimAll vs = Inr (map (\<lambda>v. trim (spec_text v)) vs)"
        by (simp add: trimAll_all_strings)
      have n: "map caseFold (map (\<lambda>v. trim (spec_text v)) vs) = spec_normalised caseFold opts"
        by (simp add: spec_normalised_def JArr)
      have c: "card (set xs) \<noteq> length xs \<longleftrightarrow> \<not> distinct xs" for xs :: "string list"
        using card_distinct distinct_card by blast
      from q question JArr True show ?thesis
        by (simp add: validateInputsWith_def spec_firstViolatedRule_def spec_atLeastTwo_def
            spec_allStringTyped_def t n c Let_def list_ex_iff del: map_map)
    qed
  qed (use q question in \<open>simp_all add: validateInputsWith_def spec_firstViolatedRule_def
        spec_atLeastTwo_def\<close>)
qed

lemma newPollWith_eager:
  "(newPollWith caseFold i q opts = Inl e) = (validateInputsWith caseFold q opts = Inl e)"
proof (cases "validateInputsWith caseFold q opts")
  case (Inl e')
  then show ?thesis by (simp add: newPollWith_def)
next
  case (Inr ok)
  then have "spec_firstViolatedRule caseFold q opts = None"
    by (simp add: validateInputsWith_rules split: option.splits)
  then have "spec_questionNonEmpty q \<and> spec_atLeastTwo opts \<and> spec_allStringTyped opts"
    by (simp add: spec_firstViolatedRule_def split: if_splits)
  then obtain s vs where "q = Some s" and "opts = JArr vs" and "list_all isString vs"
    by (cases q; cases opts)
      (auto simp add: spec_questionNonEmpty_def spec_atLeastTwo_def spec_allStringTyped_def)
  with Inr show ?thesis
    by (simp add: newPollWith_def trimAll_all_strings)
qed

lemma lower_examples:
  "toLowerCase ''A'' = ''a''" "toLowerCase ''a'' = ''a''" "toLowerCase [] = []"
  by code_simp+

text \<open>
  C7. In both versions of the aggregate, validation gives the error of the first rule
  that the input violates, the rules taken in the order: question non-empty after
  trimming, at least two options, every option a string, options distinct after
  normalising, no option empty after normalising; it accepts the input when no rule is
  violated. The constructor validates before anything else: it fails with an error
  exactly when that error is the one of the first violated rule.
\<close>

theorem validation_order:
  "validateInputs q opts =
     (case spec_firstViolatedRule (\<lambda>s. s) q opts of Some e \<Rightarrow> Inl e | None \<Rightarrow> Inr ())
   \<and> validateInputs_ci q opts =
     (case spec_firstViolatedRule toLowerCase q opts of Some e \<Rightarrow> Inl e | None \<Rightarrow> Inr ())
   \<and> (\<forall>e. (newPoll i q opts = Inl e) = (spec_firstViolatedRule (\<lambda>s. s) q opts = Some e))
   \<and> (\<forall>e. (newPoll_ci i q opts = Inl e) = (spec_firstViolatedRule toLowerCase q opts = Some e))"
  by (auto simp add: validateInputs_def validateInputs_ci_def newPoll_def newPoll_ci_def
      newPollWith_eager validateInputsWith_rules split: option.splits)

theorem validation_order_witness:
  "validateInputs (Some ''  '') (JArr [JNum 123]) = Inl QuestionEmpty
   \<and> validateInputs (Some ''Test?'') (JArr [JNum 123]) = Inl TooFewOptions
   \<and> validateInputs (Some ''Test?'') (JArr [JStr ''A'', JStr '' A'', JNum 123])
       = Inl OptionsNotStrings
   \<and> validateInputs (Some ''Test?'') (JArr [JStr '''', JStr '' '', JStr ''A''])
       = Inl OptionsNotUnique
   \<and> validateInputs (Some ''Test?'') (JArr [JStr ''A'', JStr ''a'', JStr '''']) = Inl OptionsEmpty
   \<and> validateInputs_ci (Some ''Test?'') (JArr [JStr ''A'', JStr ''a'', JStr ''''])
       = Inl OptionsNotUnique
   \<and> validateInputs (Some ''Test?'') (JArr [JStr ''A'', JStr ''a'']) = Inr ()
   \<and> newPoll (1::nat) None (JArr [JStr ''A'']) = Inl QuestionEmpty"
  using validation_order [of "Some ''  ''" "JArr [JNum 123]" "1::nat"]
    validation_order [of "Some ''Test?''" "JArr [JNum 123]" "1::nat"]
    validation_order [of "Some ''Test?''" "JArr [JStr ''A'', JStr '' A'', JNum 123]" "1::nat"]
    validation_order [of "Some ''Test?''" "JArr [JStr '''', JStr '' '', JStr ''A'']" "1::nat"]
    validation_order [of "Some ''Test?''" "JArr [JStr ''A'', JStr ''a'', JStr '''']" "1::nat"]
    validation_order [of "Some ''Test?''" "JArr [JStr ''A'', JStr ''a'']" "1::nat"]
    validation_order [of None "JArr [JStr ''A'']" "1::nat"]
  by (simp add: spec_firstViolatedRule_def spec_questionNonEmpty_def spec_atLeastTwo_def
      spec_allStringTyped_def spec_normalised_def trim_def isWhiteSpace_def lower_examples)

end
